theory Spec2Isabelle
  imports Main "HOL-Library.Sublist"
begin

section \<open>The environment of repkg.go\<close>

text \<open>
  The program talks to three things it does not contain: the local file system (package
  \<open>os\<close>), the upstream registry (package \<open>net/http\<close>) and two decoders
  (\<open>encoding/json\<close>, \<open>github.com/walle/targz\<close>). The file system is modelled
  concretely; the registry and the decoders are parameters of every function of the model.

  Paths are the strings the program builds, compared literally: a directory \<open>d\<close> contains
  the entries whose path starts with \<open>d\<close> followed by a slash. Components \<open>.\<close> and
  \<open>..\<close>, doubled slashes and symbolic links are not interpreted. Standard output
  (\<open>fmt.Println\<close>) is not modelled.
\<close>

datatype error =
    ErrNotExist          \<comment> \<open>ENOENT, the only error for which \<open>os.IsNotExist\<close> holds\<close>
  | ErrNotDir            \<comment> \<open>ENOTDIR\<close>
  | ErrIsDir             \<comment> \<open>EISDIR\<close>
  | ErrNotEmpty          \<comment> \<open>ENOTEMPTY\<close>
  | ErrInvalid           \<comment> \<open>EINVAL\<close>
  | ErrorString string   \<comment> \<open>\<open>errors.New\<close>\<close>
  | EnvError string      \<comment> \<open>any other failure reported by the environment\<close>

datatype node = Dir | File string

type_synonym filesystem = "(string \<times> node) list"

datatype event =
    EvGet string
  | EvStat string
  | EvMkdirAll string
  | EvCreate string
  | EvCopy string
  | EvExtract string string
  | EvRename string string
  | EvRemove string

record world =
  fs :: filesystem
  trace :: "event list"

record response =
  StatusCode :: int
  Body :: string
  read_fails_at :: "nat option"  \<comment> \<open>\<open>Some k\<close>: reading the body fails once \<open>k\<close> bytes were read\<close>

record DistTags =
  Latest :: string

record PackageInfo =
  ID :: string
  Name :: string
  Description :: string
  DistTags :: DistTags

record env =
  http_get :: "world \<Rightarrow> string \<Rightarrow> string + response"
  new_request_error :: "string \<Rightarrow> string option"
  json_unmarshal :: "string \<Rightarrow> string + PackageInfo"
  targz_extract :: "world \<Rightarrow> string \<Rightarrow> string \<Rightarrow> string option \<times> filesystem"
  fault :: "world \<Rightarrow> event \<Rightarrow> string option"

subsection \<open>The file system\<close>

definition lookup :: "filesystem \<Rightarrow> string \<Rightarrow> node option" where
  "lookup f p = map_of f p"

fun is_file :: "node option \<Rightarrow> bool" where
  "is_file (Some (File c)) = True"
| "is_file _ = False"

definition under :: "string \<Rightarrow> string \<Rightarrow> bool" where
  "under d k = prefix (d @ ''/'') k"

definition has_entries :: "filesystem \<Rightarrow> string \<Rightarrow> bool" where
  "has_entries f d = list_ex (\<lambda>(k, n). under d k) f"

fun ancestors_from :: "string \<Rightarrow> string \<Rightarrow> string list" where
  "ancestors_from pre [] = []"
| "ancestors_from pre (c # cs) =
     (if c = CHR ''/'' \<and> pre \<noteq> [] then [pre] else []) @ ancestors_from (pre @ [c]) cs"

definition ancestors :: "string \<Rightarrow> string list" where
  "ancestors p = ancestors_from [] p"

definition unlink :: "filesystem \<Rightarrow> string \<Rightarrow> filesystem" where
  "unlink f p = filter (\<lambda>(k, n). k \<noteq> p) f"

definition fs_stat :: "filesystem \<Rightarrow> string \<Rightarrow> error + filesystem" where
  "fs_stat f p =
     (if list_ex (\<lambda>q. is_file (lookup f q)) (ancestors p) then Inl ErrNotDir
      else case lookup f p of None \<Rightarrow> Inl ErrNotExist | Some n \<Rightarrow> Inr f)"

fun mkdirs :: "filesystem \<Rightarrow> string list \<Rightarrow> error + filesystem" where
  "mkdirs f [] = Inr f"
| "mkdirs f (q # qs) =
     (case lookup f q of
        Some Dir \<Rightarrow> mkdirs f qs
      | Some (File c) \<Rightarrow> Inl ErrNotDir
      | None \<Rightarrow> mkdirs ((q, Dir) # f) qs)"

definition fs_mkdirall :: "filesystem \<Rightarrow> string \<Rightarrow> error + filesystem" where
  "fs_mkdirall f p = mkdirs f (ancestors p @ [p])"

definition parent_node :: "filesystem \<Rightarrow> string \<Rightarrow> node option" where
  "parent_node f p = (if ancestors p = [] then Some Dir else lookup f (last (ancestors p)))"

definition fs_create :: "filesystem \<Rightarrow> string \<Rightarrow> error + filesystem" where
  "fs_create f p =
     (case parent_node f p of
        None \<Rightarrow> Inl ErrNotExist
      | Some (File c) \<Rightarrow> Inl ErrNotDir
      | Some Dir \<Rightarrow>
          (case lookup f p of
             Some Dir \<Rightarrow> Inl ErrIsDir
           | _ \<Rightarrow> Inr ((p, File []) # f)))"

definition fs_write :: "filesystem \<Rightarrow> string \<Rightarrow> string \<Rightarrow> filesystem" where
  "fs_write f p bytes = (p, File bytes) # f"

definition fs_remove :: "filesystem \<Rightarrow> string \<Rightarrow> error + filesystem" where
  "fs_remove f p =
     (case lookup f p of
        None \<Rightarrow> Inl ErrNotExist
      | Some (File c) \<Rightarrow> Inr (unlink f p)
      | Some Dir \<Rightarrow> if has_entries f p then Inl ErrNotEmpty else Inr (unlink f p))"

definition move :: "filesystem \<Rightarrow> string \<Rightarrow> string \<Rightarrow> filesystem" where
  "move f old new =
     map (\<lambda>(k, n). (if k = old then new
                     else if under old k then new @ drop (length old) k
                     else k, n))
         (unlink f new)"

definition fs_rename :: "filesystem \<Rightarrow> string \<Rightarrow> string \<Rightarrow> error + filesystem" where
  "fs_rename f old new =
     (case lookup f old of
        None \<Rightarrow> Inl ErrNotExist
      | Some n \<Rightarrow>
          if old = new then Inr f
          else if under old new then Inl ErrInvalid
          else (case parent_node f new of
                  None \<Rightarrow> Inl ErrNotExist
                | Some (File c) \<Rightarrow> Inl ErrNotDir
                | Some Dir \<Rightarrow>
                    (case lookup f new of
                       None \<Rightarrow> Inr (move f old new)
                     | Some (File c) \<Rightarrow> if n = Dir then Inl ErrNotDir else Inr (move f old new)
                     | Some Dir \<Rightarrow>
                         if n \<noteq> Dir then Inl ErrIsDir
                         else if has_entries f new then Inl ErrNotEmpty
                         else Inr (move f old new))))"

subsection \<open>Effects\<close>

text \<open>
  Every call into the environment appends one event to the trace. The environment may make
  any file-system call fail (\<open>fault\<close>: permissions, a full disk); such a failure is never
  \<open>ErrNotExist\<close> and leaves the file system as it was.
\<close>

definition log_event :: "event \<Rightarrow> world \<Rightarrow> world" where
  "log_event ev w = w\<lparr>trace := trace w @ [ev]\<rparr>"

definition fs_op ::
    "env \<Rightarrow> world \<Rightarrow> event \<Rightarrow> (filesystem \<Rightarrow> error + filesystem) \<Rightarrow> error option \<times> world" where
  "fs_op E w ev f =
     (case fault E w ev of
        Some m \<Rightarrow> (Some (EnvError m), log_event ev w)
      | None \<Rightarrow>
          (case f (fs w) of
             Inl e \<Rightarrow> (Some e, log_event ev w)
           | Inr f' \<Rightarrow> (None, (log_event ev w)\<lparr>fs := f'\<rparr>)))"

definition os_Stat :: "env \<Rightarrow> world \<Rightarrow> string \<Rightarrow> error option \<times> world" where
  "os_Stat E w p = fs_op E w (EvStat p) (\<lambda>f. fs_stat f p)"

definition os_MkdirAll :: "env \<Rightarrow> world \<Rightarrow> string \<Rightarrow> error option \<times> world" where
  "os_MkdirAll E w p = fs_op E w (EvMkdirAll p) (\<lambda>f. fs_mkdirall f p)"

definition os_Create :: "env \<Rightarrow> world \<Rightarrow> string \<Rightarrow> error option \<times> world" where
  "os_Create E w p = fs_op E w (EvCreate p) (\<lambda>f. fs_create f p)"

definition os_Rename :: "env \<Rightarrow> world \<Rightarrow> string \<Rightarrow> string \<Rightarrow> error option \<times> world" where
  "os_Rename E w old new = fs_op E w (EvRename old new) (\<lambda>f. fs_rename f old new)"

definition os_Remove :: "env \<Rightarrow> world \<Rightarrow> string \<Rightarrow> error option \<times> world" where
  "os_Remove E w p = fs_op E w (EvRemove p) (\<lambda>f. fs_remove f p)"

definition IsNotExist :: "error option \<Rightarrow> bool" where
  "IsNotExist err = (err = Some ErrNotExist)"

text \<open>
  \<open>io.Copy(file, response.Body)\<close> into the file just created at \<open>p\<close>: a write that the
  environment refuses leaves the file empty; a body that fails after \<open>k\<close> bytes leaves
  those \<open>k\<close> bytes in the file.
\<close>

definition io_Copy :: "env \<Rightarrow> world \<Rightarrow> string \<Rightarrow> response \<Rightarrow> error option \<times> world" where
  "io_Copy E w p r =
     (case fault E w (EvCopy p) of
        Some m \<Rightarrow> (Some (EnvError m), log_event (EvCopy p) w)
      | None \<Rightarrow>
          (case read_fails_at r of
             Some k \<Rightarrow> (Some (EnvError ''unexpected EOF''),
                        (log_event (EvCopy p) w)\<lparr>fs := fs_write (fs w) p (take k (Body r))\<rparr>)
           | None \<Rightarrow> (None, (log_event (EvCopy p) w)\<lparr>fs := fs_write (fs w) p (Body r)\<rparr>)))"

definition http_Get :: "env \<Rightarrow> world \<Rightarrow> string \<Rightarrow> (string + response) \<times> world" where
  "http_Get E w url = (http_get E w url, log_event (EvGet url) w)"

definition targz_Extract :: "env \<Rightarrow> world \<Rightarrow> string \<Rightarrow> string \<Rightarrow> error option \<times> world" where
  "targz_Extract E w archive dir =
     (case targz_extract E w archive dir of
        (r, f') \<Rightarrow> (map_option EnvError r, (log_event (EvExtract archive dir) w)\<lparr>fs := f'\<rparr>))"

section \<open>The program\<close>

text \<open>
  \<open>log.Fatal\<close> prints its argument and calls \<open>os.Exit(1)\<close>: the process ends. A function
  that can reach it has the outcome \<open>Fatal\<close> there, with the world it leaves behind.
\<close>

datatype 'a outcome = Returned 'a world | Fatal error world

text \<open>\<open>func findPackageInfo(scope string, name string) (version string, err error)\<close>.
  Every error return of the source carries the empty version, so the pair is a sum.\<close>

definition findPackageInfo :: "env \<Rightarrow> world \<Rightarrow> string \<Rightarrow> string \<Rightarrow> (error + string) \<times> world" where
  "findPackageInfo E w scope name =
     (let npmApi = ''http://localhost:4873/-/verdaccio/data/sidebar/'' @ scope @ ''/'' @ name
      in case new_request_error E npmApi of
           Some m \<Rightarrow> (Inl (EnvError m), w)
         | None \<Rightarrow>
             (case http_Get E w npmApi of
                (Inl m, w1) \<Rightarrow> (Inl (EnvError m), w1)
              | (Inr res, w1) \<Rightarrow>
                  (case read_fails_at res of
                     Some k \<Rightarrow> (Inl (EnvError ''unexpected EOF''), w1)
                   | None \<Rightarrow>
                       (case json_unmarshal E (Body res) of
                          Inl m \<Rightarrow> (Inl (EnvError m), w1)
                        | Inr pkgInfo \<Rightarrow> (Inr (Latest (DistTags pkgInfo)), w1)))))"

text \<open>\<open>func downloadPackage(URL, fileName string) error\<close>\<close>

definition downloadPackage :: "env \<Rightarrow> world \<Rightarrow> string \<Rightarrow> string \<Rightarrow> error option \<times> world" where
  "downloadPackage E w URL fileName =
     (case http_Get E w URL of
        (Inl m, w1) \<Rightarrow> (Some (EnvError m), w1)
      | (Inr response, w1) \<Rightarrow>
          if StatusCode response \<noteq> 200
          then (Some (ErrorString ''received a non 200 response code''), w1)
          else (case os_Create E w1 fileName of
                  (Some err, w2) \<Rightarrow> (Some err, w2)
                | (None, w2) \<Rightarrow>
                    (case io_Copy E w2 fileName response of
                       (Some err, w3) \<Rightarrow> (Some err, w3)
                     | (None, w3) \<Rightarrow> (None, w3))))"

text \<open>\<open>func fetchPackage(packageName string, packageVersion string)\<close>\<close>

definition fetchPackage :: "env \<Rightarrow> world \<Rightarrow> string \<Rightarrow> string \<Rightarrow> unit outcome" where
  "fetchPackage E w packageName packageVersion =
     (let registryHost = ''http://localhost:4873'';
          URL = registryHost @ ''/'' @ packageName @ ''/-/'' @ packageName @ ''-''
                  @ packageVersion @ ''.tgz'';
          fileName = ''packages/'' @ packageName @ ''/'' @ packageVersion @ ''.tgz'';
          outputDir = ''packages/'' @ packageName
      in case os_Stat E w (outputDir @ ''@'' @ packageVersion) of
           (err0, w0) \<Rightarrow>
             if \<not> IsNotExist err0 then Returned () w0
             else
               (case os_MkdirAll E w0 outputDir of
                  (Some err, w1) \<Rightarrow> Fatal err w1
                | (None, w1) \<Rightarrow>
               (case downloadPackage E w1 URL fileName of
                  (Some err, w2) \<Rightarrow> Fatal err w2
                | (None, w2) \<Rightarrow>
               (case targz_Extract E w2 fileName outputDir of
                  (Some err, w3) \<Rightarrow> Fatal err w3
                | (None, w3) \<Rightarrow>
               (case os_Stat E w3 (outputDir @ ''/package'') of
                  (err4, w4) \<Rightarrow>
               (case (if \<not> IsNotExist err4
                      then os_Rename E w4 (outputDir @ ''/package'')
                             (outputDir @ ''@'' @ packageVersion)
                      else (None, w4)) of
                  (Some err, w5) \<Rightarrow> Fatal err w5
                | (None, w5) \<Rightarrow>
               (case os_Remove E w5 fileName of
                  (Some err, w6) \<Rightarrow> Fatal err w6
                | (None, w6) \<Rightarrow>
               (case os_Remove E w6 outputDir of
                  (Some err, w7) \<Rightarrow> Fatal err w7
                | (None, w7) \<Rightarrow> Returned () w7))))))))"

text \<open>The handler of \<open>GET /npm/:scope/:name/*version\<close> in \<open>main\<close>, given the three
  parameters as the router hands them over; gin hands over a catch-all parameter with its
  leading slash, so a request without a version arrives with \<open>version = "/"\<close>.
  \<open>StatusFound\<close> is 302 and \<open>StatusOK\<close> is 200.\<close>

datatype http_response = Redirect int string | String int string

definition handler :: "env \<Rightarrow> world \<Rightarrow> string \<Rightarrow> string \<Rightarrow> string \<Rightarrow> http_response outcome" where
  "handler E w scope name version0 =
     (let packageName = scope @ ''/'' @ name
      in case (if length version0 < 2
               then (case findPackageInfo E w scope name of
                       (Inl err, w1) \<Rightarrow> ('''', w1)
                     | (Inr v, w1) \<Rightarrow> (v, w1))
               else (version0, w)) of
           (version, w1) \<Rightarrow>
             (case fetchPackage E w1 packageName version of
                Fatal err w2 \<Rightarrow> Fatal err w2
              | Returned u w2 \<Rightarrow>
                  (case os_Stat E w2 (''packages/'' @ packageName) of
                     (err, w3) \<Rightarrow>
                       if IsNotExist err
                       then Returned (Redirect 302 (''/packages/'' @ packageName @ ''@'' @ version)) w3
                       else Returned (String 200 (''Hello '' @ name)) w3)))"

text \<open>\<open>n\<close> calls of \<open>fetchPackage\<close> for the same package, one after the other.\<close>

fun fetchPackage_times :: "nat \<Rightarrow> env \<Rightarrow> world \<Rightarrow> string \<Rightarrow> string \<Rightarrow> unit outcome" where
  "fetchPackage_times 0 E w packageName packageVersion = Returned () w"
| "fetchPackage_times (Suc n) E w packageName packageVersion =
     (case fetchPackage E w packageName packageVersion of
        Fatal err w' \<Rightarrow> Fatal err w'
      | Returned u w' \<Rightarrow> fetchPackage_times n E w' packageName packageVersion)"

section \<open>Names used in the statements\<close>

text \<open>The three paths of an identifier on disk, as \<open>fetchPackage\<close> builds them from
  \<open>packageName = scope + "/" + name\<close>: the final directory, the staging directory and
  the downloaded archive; and the two URLs the program requests.\<close>

definition finalDir :: "string \<Rightarrow> string \<Rightarrow> string \<Rightarrow> string" where
  "finalDir scope name version = ''packages/'' @ scope @ ''/'' @ name @ ''@'' @ version"

definition stagingDir :: "string \<Rightarrow> string \<Rightarrow> string" where
  "stagingDir scope name = ''packages/'' @ scope @ ''/'' @ name"

definition archiveFile :: "string \<Rightarrow> string \<Rightarrow> string \<Rightarrow> string" where
  "archiveFile scope name version = ''packages/'' @ scope @ ''/'' @ name @ ''/'' @ version @ ''.tgz''"

definition archiveURL :: "string \<Rightarrow> string \<Rightarrow> string \<Rightarrow> string" where
  "archiveURL scope name version =
     ''http://localhost:4873/'' @ scope @ ''/'' @ name @ ''/-/'' @ scope @ ''/'' @ name @ ''-''
       @ version @ ''.tgz''"

definition sidebarURL :: "string \<Rightarrow> string \<Rightarrow> string" where
  "sidebarURL scope name = ''http://localhost:4873/-/verdaccio/data/sidebar/'' @ scope @ ''/'' @ name"

text \<open>The world an outcome leaves behind, the value it returns (none when the process
  ended), and the URLs requested in a trace.\<close>

fun world_of :: "'a outcome \<Rightarrow> world" where
  "world_of (Returned x w) = w"
| "world_of (Fatal err w) = w"

fun result_of :: "'a outcome \<Rightarrow> 'a option" where
  "result_of (Returned x w) = Some x"
| "result_of (Fatal err w) = None"

fun requests :: "event list \<Rightarrow> string list" where
  "requests [] = []"
| "requests (EvGet url # evs) = url # requests evs"
| "requests (ev # evs) = requests evs"

text \<open>The calls a complete first-time run of \<open>fetchPackage\<close> makes, in order; the rename
  is there when the extraction left a \<open>package\<close> entry in the staging directory.\<close>

definition first_time_events :: "string \<Rightarrow> string \<Rightarrow> string \<Rightarrow> bool \<Rightarrow> event list" where
  "first_time_events scope name version renamed =
     [EvStat (finalDir scope name version),
      EvMkdirAll (stagingDir scope name),
      EvGet (archiveURL scope name version),
      EvCreate (archiveFile scope name version),
      EvCopy (archiveFile scope name version),
      EvExtract (archiveFile scope name version) (stagingDir scope name),
      EvStat (stagingDir scope name @ ''/package'')]
     @ (if renamed then [EvRename (stagingDir scope name @ ''/package'') (finalDir scope name version)]
        else [])
     @ [EvRemove (archiveFile scope name version), EvRemove (stagingDir scope name)]"

section \<open>Sample environments\<close>

text \<open>A registry that serves the listed URLs and refuses every other connection, a decoder
  that knows two documents, an extractor that knows two archives, and no injected faults.\<close>

definition ok_response :: "string \<Rightarrow> response" where
  "ok_response body = \<lparr>StatusCode = 200, Body = body, read_fails_at = None\<rparr>"

definition not_found :: response where
  "not_found = \<lparr>StatusCode = 404, Body = ''not found'', read_fails_at = None\<rparr>"

definition upstream :: "(string \<times> response) list \<Rightarrow> world \<Rightarrow> string \<Rightarrow> string + response" where
  "upstream served w url =
     (case map_of served url of None \<Rightarrow> Inl ''connection refused'' | Some r \<Rightarrow> Inr r)"

definition latest_doc :: string where
  \<open>latest_doc = ''{"dist-tags":{"latest":"1.2.3"}}''\<close>

definition sample_unmarshal :: "string \<Rightarrow> string + PackageInfo" where
  \<open>sample_unmarshal b =
     (if b = ''{}''
      then Inr \<lparr>ID = '''', Name = '''', Description = '''', DistTags = \<lparr>Latest = ''''\<rparr>\<rparr>
      else if b = latest_doc
      then Inr \<lparr>ID = '''', Name = '''', Description = '''', DistTags = \<lparr>Latest = ''1.2.3''\<rparr>\<rparr>
      else Inl ''invalid character'')\<close>

definition sample_extract :: "world \<Rightarrow> string \<Rightarrow> string \<Rightarrow> string option \<times> filesystem" where
  "sample_extract w archive dir =
     (case lookup (fs w) archive of
        Some (File c) \<Rightarrow>
          if c = ''tgz[package/index.js]''
          then (None, (dir @ ''/package/index.js'', File ''js'') # (dir @ ''/package'', Dir) # fs w)
          else if c = ''tgz[]'' then (None, fs w)
          else (Some ''gzip: invalid header'', fs w)
      | _ \<Rightarrow> (Some ''open: no such file'', fs w))"

definition sample_env :: "(string \<times> response) list \<Rightarrow> env" where
  "sample_env served =
     \<lparr>http_get = upstream served,
      new_request_error = (\<lambda>url. None),
      json_unmarshal = sample_unmarshal,
      targz_extract = sample_extract,
      fault = (\<lambda>w ev. None)\<rparr>"

definition empty_disk :: world where
  "empty_disk = \<lparr>fs = [], trace = []\<rparr>"

definition staging_disk :: world where
  "staging_disk =
     \<lparr>fs = [(''packages'', Dir), (''packages/@foo'', Dir), (''packages/@foo/bar'', Dir)],
      trace = []\<rparr>"

definition cached_disk :: world where
  "cached_disk =
     \<lparr>fs = [(''packages'', Dir), (''packages/@foo'', Dir), (''packages/@foo/bar@1.2.3'', Dir),
            (''packages/@foo/bar@1.2.3/index.js'', File ''js'')],
      trace = []\<rparr>"

definition leftover_disk :: world where
  "leftover_disk =
     \<lparr>fs = [(''packages'', Dir), (''packages/@foo'', Dir), (''packages/@foo/bar'', Dir),
            (''packages/@foo/bar@1.2.3'', Dir), (''packages/@foo/bar@1.2.3/index.js'', File ''js'')],
      trace = []\<rparr>"

section \<open>Lemmas about the environment\<close>

lemma fs_op_trace: "fs_op E w ev f = (r, w') \<Longrightarrow> trace w' = trace w @ [ev]"
  by (auto simp: fs_op_def log_event_def split: option.splits sum.splits)

lemma fs_op_None:
  "fs_op E w ev f = (None, w') \<Longrightarrow> \<exists>f'. f (fs w) = Inr f' \<and> w' = (log_event ev w)\<lparr>fs := f'\<rparr>"
  by (auto simp: fs_op_def split: option.splits sum.splits)

lemma fs_op_Some:
  "fs_op E w ev f = (Some e, w') \<Longrightarrow> w' = log_event ev w"
  by (auto simp: fs_op_def split: option.splits sum.splits)

lemma os_Stat_world: "os_Stat E w p = (r, w') \<Longrightarrow> w' = log_event (EvStat p) w"
  by (auto simp: os_Stat_def fs_op_def fs_stat_def log_event_def split: option.splits sum.splits if_splits)

lemma os_Stat_exists: "lookup (fs w) p \<noteq> None \<Longrightarrow> \<not> IsNotExist (fst (os_Stat E w p))"
  by (auto simp: os_Stat_def fs_op_def fs_stat_def IsNotExist_def split: option.splits sum.splits if_splits)

lemma fetchPackage_cached:
  assumes "lookup (fs w) (''packages/'' @ packageName @ ''@'' @ packageVersion) \<noteq> None"
  shows "fetchPackage E w packageName packageVersion =
           Returned () (log_event (EvStat (''packages/'' @ packageName @ ''@'' @ packageVersion)) w)"
  using os_Stat_exists[OF assms, of E]
  by (auto simp: fetchPackage_def Let_def split: prod.splits dest: os_Stat_world)

lemma fetchPackage_times_cached:
  assumes "lookup (fs w) (''packages/'' @ packageName @ ''@'' @ packageVersion) \<noteq> None"
  shows "fetchPackage_times n E w packageName packageVersion =
           Returned () (w\<lparr>trace := trace w @ replicate n (EvStat (''packages/'' @ packageName @ ''@'' @ packageVersion))\<rparr>)"
  using assms
proof (induction n arbitrary: w)
  case 0
  then show ?case by simp
next
  case (Suc n)
  let ?w1 = "log_event (EvStat (''packages/'' @ packageName @ ''@'' @ packageVersion)) w"
  have "lookup (fs ?w1) (''packages/'' @ packageName @ ''@'' @ packageVersion) \<noteq> None"
    using Suc.prems by (simp add: log_event_def)
  from Suc.IH[OF this] fetchPackage_cached[OF Suc.prems, of E]
  show ?case by (simp add: log_event_def replicate_app_Cons_same)
qed









lemma targz_Extract_trace:
  "targz_Extract E w a d = (r, w') \<Longrightarrow> trace w' = trace w @ [EvExtract a d]"
  by (auto simp: targz_Extract_def log_event_def split: prod.splits)

lemma requests_append: "requests (xs @ ys) = requests xs @ requests ys"
  by (induction xs rule: requests.induct) auto

lemma downloadPackage_requests:
  "downloadPackage E w URL fileName = (r, w') \<Longrightarrow> requests (trace w') = requests (trace w) @ [URL]"
  by (auto simp: downloadPackage_def http_Get_def os_Create_def io_Copy_def log_event_def requests_append
           split: prod.splits sum.splits option.splits if_splits dest!: fs_op_trace)

lemma os_Create_None:
  "os_Create E w p = (None, w') \<Longrightarrow>
     trace w' = trace w @ [EvCreate p] \<and> fs w' = (p, File []) # fs w"
  by (auto simp: os_Create_def fs_create_def log_event_def
           split: option.splits node.splits dest!: fs_op_None)

lemma os_Create_Some:
  "os_Create E w p = (Some e, w') \<Longrightarrow> trace w' = trace w @ [EvCreate p] \<and> fs w' = fs w"
  by (auto simp: os_Create_def log_event_def dest!: fs_op_Some)

lemma io_Copy_Some:
  "io_Copy E w p r = (Some e, w') \<Longrightarrow>
     trace w' = trace w @ [EvCopy p]
     \<and> (fs w' = fs w \<or> (\<exists>k. fs w' = (p, File (take k (Body r))) # fs w))"
  by (auto simp: io_Copy_def log_event_def fs_write_def split: option.splits)

lemma os_Stat_requests:
  "os_Stat E w p = (r, w') \<Longrightarrow> requests (trace w') = requests (trace w)"
  by (auto simp: os_Stat_def requests_append dest!: fs_op_trace)

lemma os_MkdirAll_requests:
  "os_MkdirAll E w p = (r, w') \<Longrightarrow> requests (trace w') = requests (trace w)"
  by (auto simp: os_MkdirAll_def requests_append dest!: fs_op_trace)

lemma os_Rename_requests:
  "os_Rename E w p q = (r, w') \<Longrightarrow> requests (trace w') = requests (trace w)"
  by (auto simp: os_Rename_def requests_append dest!: fs_op_trace)

lemma os_Remove_requests:
  "os_Remove E w p = (r, w') \<Longrightarrow> requests (trace w') = requests (trace w)"
  by (auto simp: os_Remove_def requests_append dest!: fs_op_trace)

lemma targz_Extract_requests:
  "targz_Extract E w a d = (r, w') \<Longrightarrow> requests (trace w') = requests (trace w)"
  by (auto dest!: targz_Extract_trace simp: requests_append)

lemma fs_op_prefix: "fs_op E w ev f = (r, w') \<Longrightarrow> prefix (trace w) (trace w')"
  by (auto dest!: fs_op_trace)

lemma downloadPackage_prefix:
  "downloadPackage E w URL fileName = (r, w') \<Longrightarrow> prefix (trace w) (trace w')"
  by (auto simp: downloadPackage_def http_Get_def os_Create_def io_Copy_def log_event_def
           split: prod.splits sum.splits option.splits if_splits dest!: fs_op_trace)

lemma targz_Extract_prefix:
  "targz_Extract E w a d = (r, w') \<Longrightarrow> prefix (trace w) (trace w')"
  by (auto dest!: targz_Extract_trace)

lemma fetchPackage_first_event:
  "prefix (trace w @ [EvStat (''packages/'' @ packageName @ ''@'' @ packageVersion)])
          (trace (world_of (fetchPackage E w packageName packageVersion)))"
proof -
  let ?dir = "''packages/'' @ packageName"
  let ?final = "?dir @ ''@'' @ packageVersion"
  let ?file = "?dir @ ''/'' @ packageVersion @ ''.tgz''"
  let ?URL = "''http://localhost:4873'' @ ''/'' @ packageName @ ''/-/'' @ packageName @ ''-''
                @ packageVersion @ ''.tgz''"
  obtain e0 w0 where s0: "os_Stat E w ?final = (e0, w0)"
    by (cases "os_Stat E w ?final")
  obtain r1 w1 where m1: "os_MkdirAll E w0 ?dir = (r1, w1)"
    by (cases "os_MkdirAll E w0 ?dir")
  obtain r2 w2 where d: "downloadPackage E w1 ?URL ?file = (r2, w2)"
    by (cases "downloadPackage E w1 ?URL ?file")
  obtain r3 w3 where x: "targz_Extract E w2 ?file ?dir = (r3, w3)"
    by (cases "targz_Extract E w2 ?file ?dir")
  obtain e4 w4 where s4: "os_Stat E w3 (?dir @ ''/package'') = (e4, w4)"
    by (cases "os_Stat E w3 (?dir @ ''/package'')")
  obtain r5 w5 where rn:
    "(if \<not> IsNotExist e4 then os_Rename E w4 (?dir @ ''/package'') ?final else (None, w4)) = (r5, w5)"
    by (cases "if \<not> IsNotExist e4 then os_Rename E w4 (?dir @ ''/package'') ?final else (None, w4)")
  obtain r6 w6 where rm6: "os_Remove E w5 ?file = (r6, w6)"
    by (cases "os_Remove E w5 ?file")
  obtain r7 w7 where rm7: "os_Remove E w6 ?dir = (r7, w7)"
    by (cases "os_Remove E w6 ?dir")
  have P0: "trace w0 = trace w @ [EvStat ?final]"
    using s0 by (auto simp: os_Stat_def dest!: fs_op_trace)
  have P1: "prefix (trace w0) (trace w1)"
    using m1 by (auto simp: os_MkdirAll_def dest!: fs_op_prefix)
  have P2: "prefix (trace w1) (trace w2)"
    using d by (rule downloadPackage_prefix)
  have P3: "prefix (trace w2) (trace w3)"
    using x by (rule targz_Extract_prefix)
  have P4: "prefix (trace w3) (trace w4)"
    using s4 by (auto simp: os_Stat_def dest!: fs_op_prefix)
  have P5: "prefix (trace w4) (trace w5)"
    using rn by (auto simp: os_Rename_def split: if_splits dest!: fs_op_prefix)
  have P6: "prefix (trace w5) (trace w6)"
    using rm6 by (auto simp: os_Remove_def dest!: fs_op_prefix)
  have P7: "prefix (trace w6) (trace w7)"
    using rm7 by (auto simp: os_Remove_def dest!: fs_op_prefix)
  have "world_of (fetchPackage E w packageName packageVersion) \<in> {w0, w1, w2, w3, w5, w6, w7}"
    using s0 m1 d x s4 rn rm6 rm7
    by (cases "IsNotExist e4") (simp_all add: fetchPackage_def Let_def split: option.splits)
  moreover have "prefix (trace w0) (trace v)" if "v \<in> {w0, w1, w2, w3, w5, w6, w7}" for v
    using that P1 P2 P3 P4 P5 P6 P7 by (auto intro: prefix_order.trans)
  ultimately show ?thesis
    using P0 by simp
qed

lemma handler_extends_fetchPackage:
  assumes "(if length version0 < 2
            then (case findPackageInfo E w scope name of
                    (Inl err, w') \<Rightarrow> ('''', w')
                  | (Inr v, w') \<Rightarrow> (v, w'))
            else (version0, w)) = (version, w1)"
  shows "prefix (trace (world_of (fetchPackage E w1 (scope @ ''/'' @ name) version)))
                (trace (world_of (handler E w scope name version0)))"
proof (cases "fetchPackage E w1 (scope @ ''/'' @ name) version")
  case (Fatal err w2)
  with assms show ?thesis by (simp add: handler_def Let_def)
next
  case (Returned u w2)
  obtain e3 w3 where s: "os_Stat E w2 (''packages/'' @ scope @ ''/'' @ name) = (e3, w3)"
    by (cases "os_Stat E w2 (''packages/'' @ scope @ ''/'' @ name)")
  then have "prefix (trace w2) (trace w3)"
    by (auto simp: os_Stat_def dest!: fs_op_prefix)
  with assms Returned s show ?thesis by (simp add: handler_def Let_def)
qed

lemmas fs_defs =
  lookup_def under_def has_entries_def ancestors_def unlink_def fs_stat_def fs_mkdirall_def
  parent_node_def fs_create_def fs_write_def fs_remove_def move_def fs_rename_def

lemmas effect_defs =
  log_event_def fs_op_def os_Stat_def os_MkdirAll_def os_Create_def os_Rename_def os_Remove_def
  IsNotExist_def io_Copy_def http_Get_def targz_Extract_def

lemmas name_defs =
  finalDir_def stagingDir_def archiveFile_def archiveURL_def sidebarURL_def first_time_events_def

lemmas sample_defs =
  ok_response_def not_found_def upstream_def latest_doc_def sample_unmarshal_def sample_extract_def sample_env_def
  empty_disk_def staging_disk_def cached_disk_def leftover_disk_def

section \<open>The claims\<close>

text \<open>
  C1 (idempotence). When the final directory \<open>packages/scope/name@version\<close> of an
  identifier exists, any number \<open>n\<close> of calls of \<open>fetchPackage\<close> for it return, leave
  the file system exactly as it was and call the environment only to \<open>Stat\<close> that
  directory, once per call: there is no request to the registry.
\<close>

theorem fetchPackage_cached_idempotent:
  assumes "lookup (fs w) (finalDir scope name version) = Some Dir"
  shows "fetchPackage_times n E w (scope @ ''/'' @ name) version =
           Returned () (w\<lparr>trace := trace w @ replicate n (EvStat (finalDir scope name version))\<rparr>)"
  using fetchPackage_times_cached[of w "scope @ ''/'' @ name" version n E] assms
  by (simp add: finalDir_def)

theorem fetchPackage_cached_idempotent_witness:
  "lookup (fs cached_disk) (finalDir ''@foo'' ''bar'' ''1.2.3'') = Some Dir
   \<and> fetchPackage_times 3 (sample_env []) cached_disk ''@foo/bar'' ''1.2.3'' =
       Returned () (cached_disk\<lparr>trace := replicate 3 (EvStat ''packages/@foo/bar@1.2.3'')\<rparr>)"
proof -
  have h: "lookup (fs cached_disk) (finalDir ''@foo'' ''bar'' ''1.2.3'') = Some Dir"
    by (simp add: cached_disk_def finalDir_def lookup_def)
  from fetchPackage_cached_idempotent[OF h, of 3 "sample_env []"] h show ?thesis
    by (simp add: finalDir_def cached_disk_def)
qed

text \<open>
  C2 (what a failure does). As stated the claim fails: \<open>fetchPackage\<close> has no result
  through which a failure could be returned, and every failing step calls \<open>log.Fatal\<close>.
  What holds: once \<open>Stat\<close> has reported that the final directory does not exist, the
  first of \<open>MkdirAll\<close>, \<open>downloadPackage\<close>, \<open>targz.Extract\<close>, \<open>Rename\<close> and the
  two \<open>Remove\<close> calls to fail ends the process with its error; \<open>fetchPackage\<close> returns
  only when none of them fails, and when one fails the handler produces no response. The
  version is the one the handler passes on: the path parameter, or what the resolver
  returned, the empty string when the resolver failed.
\<close>

theorem fetchPackage_failure_is_fatal:
  assumes "(if length version0 < 2
            then (case findPackageInfo E wh scope name of
                    (Inl err, w') \<Rightarrow> ('''', w')
                  | (Inr v, w') \<Rightarrow> (v, w'))
            else (version0, wh)) = (version, w)"
    and "os_Stat E w (finalDir scope name version) = (Some ErrNotExist, w0)"
    and "os_MkdirAll E w0 (stagingDir scope name) = (r1, w1)"
    and "downloadPackage E w1 (archiveURL scope name version) (archiveFile scope name version) = (r2, w2)"
    and "targz_Extract E w2 (archiveFile scope name version) (stagingDir scope name) = (r3, w3)"
    and "os_Stat E w3 (stagingDir scope name @ ''/package'') = (e4, w4)"
    and "(if \<not> IsNotExist e4
          then os_Rename E w4 (stagingDir scope name @ ''/package'') (finalDir scope name version)
          else (None, w4)) = (r5, w5)"
    and "os_Remove E w5 (archiveFile scope name version) = (r6, w6)"
    and "os_Remove E w6 (stagingDir scope name) = (r7, w7)"
  shows "fetchPackage E w (scope @ ''/'' @ name) version =
           (case r1 of Some err \<Rightarrow> Fatal err w1 | None \<Rightarrow>
            case r2 of Some err \<Rightarrow> Fatal err w2 | None \<Rightarrow>
            case r3 of Some err \<Rightarrow> Fatal err w3 | None \<Rightarrow>
            case r5 of Some err \<Rightarrow> Fatal err w5 | None \<Rightarrow>
            case r6 of Some err \<Rightarrow> Fatal err w6 | None \<Rightarrow>
            case r7 of Some err \<Rightarrow> Fatal err w7 | None \<Rightarrow> Returned () w7)
       \<and> (r1 \<noteq> None \<or> r2 \<noteq> None \<or> r3 \<noteq> None \<or> r5 \<noteq> None \<or> r6 \<noteq> None \<or> r7 \<noteq> None
            \<longrightarrow> result_of (handler E wh scope name version0) = None)"
proof -
  have f: "fetchPackage E w (scope @ ''/'' @ name) version =
           (case r1 of Some err \<Rightarrow> Fatal err w1 | None \<Rightarrow>
            case r2 of Some err \<Rightarrow> Fatal err w2 | None \<Rightarrow>
            case r3 of Some err \<Rightarrow> Fatal err w3 | None \<Rightarrow>
            case r5 of Some err \<Rightarrow> Fatal err w5 | None \<Rightarrow>
            case r6 of Some err \<Rightarrow> Fatal err w6 | None \<Rightarrow>
            case r7 of Some err \<Rightarrow> Fatal err w7 | None \<Rightarrow> Returned () w7)"
    using assms(2-)
    by (cases "IsNotExist e4")
       (simp_all add: fetchPackage_def Let_def name_defs IsNotExist_def split: option.splits)
  have h: "result_of (handler E wh scope name version0) = None"
    if "fetchPackage E w (scope @ ''/'' @ name) version = Fatal err w'" for err w'
    using assms(1) that by (simp add: handler_def Let_def)
  show ?thesis
  proof (cases "r1 = None \<and> r2 = None \<and> r3 = None \<and> r5 = None \<and> r6 = None \<and> r7 = None")
    case True
    with f show ?thesis by simp
  next
    case False
    with f obtain err w' where "fetchPackage E w (scope @ ''/'' @ name) version = Fatal err w'"
      by (auto split: option.splits)
    from h[OF this] f show ?thesis by simp
  qed
qed

theorem fetchPackage_failure_is_fatal_witness:
  "fetchPackage (sample_env [(sidebarURL ''@foo'' ''bar'', ok_response latest_doc),
                             (archiveURL ''@foo'' ''bar'' ''1.2.3'', not_found)])
      (empty_disk\<lparr>trace := [EvGet (sidebarURL ''@foo'' ''bar'')]\<rparr>) ''@foo/bar'' ''1.2.3''
     = Fatal (ErrorString ''received a non 200 response code'')
         \<lparr>fs = [(''packages/@foo/bar'', Dir), (''packages/@foo'', Dir), (''packages'', Dir)],
          trace = [EvGet ''http://localhost:4873/-/verdaccio/data/sidebar/@foo/bar'',
                   EvStat ''packages/@foo/bar@1.2.3'', EvMkdirAll ''packages/@foo/bar'',
                   EvGet ''http://localhost:4873/@foo/bar/-/@foo/bar-1.2.3.tgz'']\<rparr>
   \<and> result_of (handler (sample_env [(sidebarURL ''@foo'' ''bar'', ok_response latest_doc),
                                      (archiveURL ''@foo'' ''bar'' ''1.2.3'', not_found)])
                  empty_disk ''@foo'' ''bar'' ''/'') = None"
proof -
  let ?E = "sample_env [(sidebarURL ''@foo'' ''bar'', ok_response latest_doc),
                        (archiveURL ''@foo'' ''bar'' ''1.2.3'', not_found)]"
  let ?wa = "empty_disk\<lparr>trace := [EvGet (sidebarURL ''@foo'' ''bar'')]\<rparr>"
  let ?wb = "?wa\<lparr>trace := trace ?wa @ [EvStat (finalDir ''@foo'' ''bar'' ''1.2.3'')]\<rparr>"
  let ?wc = "\<lparr>fs = [(''packages/@foo/bar'', Dir), (''packages/@foo'', Dir), (''packages'', Dir)],
              trace = trace ?wb @ [EvMkdirAll (stagingDir ''@foo'' ''bar'')]\<rparr>"
  let ?wd = "?wc\<lparr>trace := trace ?wc @ [EvGet (archiveURL ''@foo'' ''bar'' ''1.2.3'')]\<rparr>"
  let ?x = "targz_Extract ?E ?wd (archiveFile ''@foo'' ''bar'' ''1.2.3'') (stagingDir ''@foo'' ''bar'')"
  let ?s = "os_Stat ?E (snd ?x) (stagingDir ''@foo'' ''bar'' @ ''/package'')"
  let ?r = "if \<not> IsNotExist (fst ?s)
            then os_Rename ?E (snd ?s) (stagingDir ''@foo'' ''bar'' @ ''/package'') (finalDir ''@foo'' ''bar'' ''1.2.3'')
            else (None, snd ?s)"
  let ?m = "os_Remove ?E (snd ?r) (archiveFile ''@foo'' ''bar'' ''1.2.3'')"
  let ?n = "os_Remove ?E (snd ?m) (stagingDir ''@foo'' ''bar'')"
  have a0: "(if length ''/'' < 2
            then (case findPackageInfo ?E empty_disk ''@foo'' ''bar'' of
                    (Inl err, w') \<Rightarrow> ('''', w')
                  | (Inr v, w') \<Rightarrow> (v, w'))
            else (''/'', empty_disk)) = (''1.2.3'', ?wa)"
    by (simp add: findPackageInfo_def Let_def effect_defs name_defs sample_defs)
  have a1: "os_Stat ?E ?wa (finalDir ''@foo'' ''bar'' ''1.2.3'') = (Some ErrNotExist, ?wb)"
    by (simp add: fs_defs effect_defs name_defs sample_defs)
  have a2: "os_MkdirAll ?E ?wb (stagingDir ''@foo'' ''bar'') = (None, ?wc)"
    by (simp add: fs_defs effect_defs name_defs sample_defs)
  have a3: "downloadPackage ?E ?wc (archiveURL ''@foo'' ''bar'' ''1.2.3'') (archiveFile ''@foo'' ''bar'' ''1.2.3'')
              = (Some (ErrorString ''received a non 200 response code''), ?wd)"
    by (simp add: downloadPackage_def fs_defs effect_defs name_defs sample_defs)
  have a4: "?x = (fst ?x, snd ?x)" and a5: "?s = (fst ?s, snd ?s)" and a6: "?r = (fst ?r, snd ?r)"
    and a7: "?m = (fst ?m, snd ?m)" and a8: "?n = (fst ?n, snd ?n)"
    by simp_all
  from fetchPackage_failure_is_fatal[OF a0 a1 a2 a3 a4 a5 a6 a7 a8]
  show ?thesis
    by (simp add: name_defs empty_disk_def)
qed

theorem handler_404_counterexample:
  "handler (sample_env [(sidebarURL ''@foo'' ''bar'', ok_response latest_doc),
                        (archiveURL ''@foo'' ''bar'' ''1.2.3'', not_found)])
      empty_disk ''@foo'' ''bar'' ''/''
     = Fatal (ErrorString ''received a non 200 response code'')
         \<lparr>fs = [(''packages/@foo/bar'', Dir), (''packages/@foo'', Dir), (''packages'', Dir)],
          trace = [EvGet ''http://localhost:4873/-/verdaccio/data/sidebar/@foo/bar'',
                   EvStat ''packages/@foo/bar@1.2.3'', EvMkdirAll ''packages/@foo/bar'',
                   EvGet ''http://localhost:4873/@foo/bar/-/@foo/bar-1.2.3.tgz'']\<rparr>"
  by (simp add: handler_def findPackageInfo_def fetchPackage_def downloadPackage_def Let_def
        fs_defs effect_defs name_defs sample_defs)

text \<open>
  C4 (the download URL). As stated the claim fails: the file-name segment of the URL holds
  the scope-qualified name. What holds: when \<open>Stat\<close> reports that the final directory
  does not exist and \<open>MkdirAll\<close> succeeds, \<open>fetchPackage\<close> makes exactly one request,
  to \<open>http://localhost:4873/scope/name/-/scope/name-version.tgz\<close>. In the
  counterexample the version is resolved to \<open>1.2.3\<close> for \<open>@foo/bar\<close>, and the URL of
  the claim, \<open>http://localhost:4873/@foo/bar/-/bar-1.2.3.tgz\<close>, is not requested.
\<close>

theorem fetchPackage_requests_archiveURL:
  assumes "IsNotExist (fst (os_Stat E w (finalDir scope name version)))"
    and "fst (os_MkdirAll E (snd (os_Stat E w (finalDir scope name version))) (stagingDir scope name)) = None"
  shows "requests (trace (world_of (fetchPackage E w (scope @ ''/'' @ name) version)))
           = requests (trace w) @ [archiveURL scope name version]"
proof -
  let ?final = "finalDir scope name version" and ?dir = "stagingDir scope name"
  let ?file = "archiveFile scope name version" and ?URL = "archiveURL scope name version"
  obtain e0 w0 where s0: "os_Stat E w ?final = (e0, w0)"
    by (cases "os_Stat E w ?final")
  with assms obtain w1 where ne: "IsNotExist e0" and m1: "os_MkdirAll E w0 ?dir = (None, w1)"
    by (cases "os_MkdirAll E w0 ?dir") auto
  obtain r2 w2 where d: "downloadPackage E w1 ?URL ?file = (r2, w2)"
    by (cases "downloadPackage E w1 ?URL ?file")
  obtain r3 w3 where x: "targz_Extract E w2 ?file ?dir = (r3, w3)"
    by (cases "targz_Extract E w2 ?file ?dir")
  obtain e4 w4 where s4: "os_Stat E w3 (?dir @ ''/package'') = (e4, w4)"
    by (cases "os_Stat E w3 (?dir @ ''/package'')")
  obtain r5 w5 where rn:
    "(if \<not> IsNotExist e4 then os_Rename E w4 (?dir @ ''/package'') ?final else (None, w4)) = (r5, w5)"
    by (cases "if \<not> IsNotExist e4 then os_Rename E w4 (?dir @ ''/package'') ?final else (None, w4)")
  obtain r6 w6 where rm6: "os_Remove E w5 ?file = (r6, w6)"
    by (cases "os_Remove E w5 ?file")
  obtain r7 w7 where rm7: "os_Remove E w6 ?dir = (r7, w7)"
    by (cases "os_Remove E w6 ?dir")
  have R2: "requests (trace w2) = requests (trace w) @ [?URL]"
    using s0 m1 d by (simp add: os_Stat_requests os_MkdirAll_requests downloadPackage_requests)
  have R3: "requests (trace w3) = requests (trace w2)"
    using x by (rule targz_Extract_requests)
  have R4: "requests (trace w4) = requests (trace w3)"
    using s4 by (rule os_Stat_requests)
  have R5: "requests (trace w5) = requests (trace w4)"
    using rn by (auto split: if_splits dest: os_Rename_requests)
  have R6: "requests (trace w6) = requests (trace w5)"
    using rm6 by (rule os_Remove_requests)
  have R7: "requests (trace w7) = requests (trace w6)"
    using rm7 by (rule os_Remove_requests)
  have "world_of (fetchPackage E w (scope @ ''/'' @ name) version) \<in> {w2, w3, w5, w6, w7}"
    using s0 ne m1 d x s4 rn rm6 rm7
    by (cases "IsNotExist e4") (simp_all add: fetchPackage_def Let_def name_defs split: option.splits)
  with R2 R3 R4 R5 R6 R7 show ?thesis by auto
qed

theorem fetchPackage_requests_archiveURL_witness:
  "IsNotExist (fst (os_Stat (sample_env []) empty_disk (finalDir ''@foo'' ''bar'' ''1.2.3'')))
   \<and> fst (os_MkdirAll (sample_env []) (snd (os_Stat (sample_env []) empty_disk (finalDir ''@foo'' ''bar'' ''1.2.3'')))
             (stagingDir ''@foo'' ''bar'')) = None
   \<and> requests (trace (world_of (fetchPackage (sample_env []) empty_disk ''@foo/bar'' ''1.2.3'')))
       = [''http://localhost:4873/@foo/bar/-/@foo/bar-1.2.3.tgz'']"
proof -
  have h1: "IsNotExist (fst (os_Stat (sample_env []) empty_disk (finalDir ''@foo'' ''bar'' ''1.2.3'')))"
    by (simp add: fs_defs effect_defs name_defs sample_defs)
  have h2: "fst (os_MkdirAll (sample_env []) (snd (os_Stat (sample_env []) empty_disk (finalDir ''@foo'' ''bar'' ''1.2.3'')))
             (stagingDir ''@foo'' ''bar'')) = None"
    by (simp add: fs_defs effect_defs name_defs sample_defs)
  from fetchPackage_requests_archiveURL[OF h1 h2] h1 h2 show ?thesis
    by (simp add: archiveURL_def empty_disk_def)
qed

theorem handler_requests_counterexample:
  "requests (trace (world_of
      (handler (sample_env [(sidebarURL ''@foo'' ''bar'', ok_response latest_doc)])
         empty_disk ''@foo'' ''bar'' ''/'')))
     = [''http://localhost:4873/-/verdaccio/data/sidebar/@foo/bar'',
        ''http://localhost:4873/@foo/bar/-/@foo/bar-1.2.3.tgz'']
   \<and> ''http://localhost:4873/@foo/bar/-/bar-1.2.3.tgz''
        \<notin> set (requests (trace (world_of
            (handler (sample_env [(sidebarURL ''@foo'' ''bar'', ok_response latest_doc)])
               empty_disk ''@foo'' ''bar'' ''/''))))"
  by (simp add: handler_def findPackageInfo_def fetchPackage_def downloadPackage_def Let_def
        fs_defs effect_defs name_defs sample_defs)

text \<open>
  C5 (the response of the handler). As stated the claim fails: the handler does not look
  at the final directory. What holds: when \<open>fetchPackage\<close> returns, the handler answers
  with a redirect (302) to \<open>/packages/scope/name@version\<close> exactly when \<open>Stat\<close> reports
  that the staging directory \<open>packages/scope/name\<close> does not exist, and with the plain
  text \<open>Hello name\<close> (200) otherwise. The counterexample has both directions: a cached
  package next to a left-over staging directory gets the plain text, and an archive
  without a \<open>package\<close> entry gets a redirect to a directory that does not exist.
\<close>

theorem handler_response:
  assumes "(if length version0 < 2
            then (case findPackageInfo E w scope name of
                    (Inl err, w') \<Rightarrow> ('''', w')
                  | (Inr v, w') \<Rightarrow> (v, w'))
            else (version0, w)) = (version, w1)"
    and "fetchPackage E w1 (scope @ ''/'' @ name) version = Returned () w2"
  shows "handler E w scope name version0 =
           Returned (if IsNotExist (fst (os_Stat E w2 (stagingDir scope name)))
                     then Redirect 302 (''/packages/'' @ scope @ ''/'' @ name @ ''@'' @ version)
                     else String 200 (''Hello '' @ name))
                    (log_event (EvStat (stagingDir scope name)) w2)"
proof -
  obtain e3 w3 where s: "os_Stat E w2 (stagingDir scope name) = (e3, w3)"
    by (cases "os_Stat E w2 (stagingDir scope name)")
  from os_Stat_world[OF s] have "w3 = log_event (EvStat (stagingDir scope name)) w2" .
  with assms s show ?thesis
    by (simp add: handler_def Let_def stagingDir_def)
qed

theorem handler_response_witness:
  "handler (sample_env [(sidebarURL ''@foo'' ''bar'', ok_response latest_doc)])
      cached_disk ''@foo'' ''bar'' ''/''
     = Returned (Redirect 302 ''/packages/@foo/bar@1.2.3'')
         (cached_disk\<lparr>trace := [EvGet ''http://localhost:4873/-/verdaccio/data/sidebar/@foo/bar'',
                                  EvStat ''packages/@foo/bar@1.2.3'', EvStat ''packages/@foo/bar'']\<rparr>)"
proof -
  let ?E = "sample_env [(sidebarURL ''@foo'' ''bar'', ok_response latest_doc)]"
  let ?wc = "cached_disk\<lparr>trace := [EvGet (sidebarURL ''@foo'' ''bar'')]\<rparr>"
  let ?wd = "cached_disk\<lparr>trace := [EvGet (sidebarURL ''@foo'' ''bar''), EvStat (finalDir ''@foo'' ''bar'' ''1.2.3'')]\<rparr>"
  have a0: "(if length ''/'' < 2
            then (case findPackageInfo ?E cached_disk ''@foo'' ''bar'' of
                    (Inl err, w') \<Rightarrow> ('''', w')
                  | (Inr v, w') \<Rightarrow> (v, w'))
            else (''/'', cached_disk)) = (''1.2.3'', ?wc)"
    by (simp add: findPackageInfo_def Let_def effect_defs name_defs sample_defs)
  have a1: "fetchPackage ?E ?wc (''@foo'' @ ''/'' @ ''bar'') ''1.2.3'' = Returned () ?wd"
    by (simp add: fetchPackage_def Let_def fs_defs effect_defs name_defs sample_defs)
  from handler_response[OF a0 a1] show ?thesis
    by (simp add: fs_defs effect_defs name_defs sample_defs)
qed

theorem handler_response_counterexample:
  "result_of (handler (sample_env [(sidebarURL ''@foo'' ''bar'', ok_response latest_doc)])
                leftover_disk ''@foo'' ''bar'' ''/'') = Some (String 200 ''Hello bar'')
   \<and> lookup (fs (world_of (handler (sample_env [(sidebarURL ''@foo'' ''bar'', ok_response latest_doc)])
                leftover_disk ''@foo'' ''bar'' ''/''))) (finalDir ''@foo'' ''bar'' ''1.2.3'') = Some Dir
   \<and> result_of (handler (sample_env [(sidebarURL ''@foo'' ''bar'', ok_response latest_doc),
                                      (archiveURL ''@foo'' ''bar'' ''1.2.3'', ok_response ''tgz[]'')])
                empty_disk ''@foo'' ''bar'' ''/'') = Some (Redirect 302 ''/packages/@foo/bar@1.2.3'')
   \<and> lookup (fs (world_of (handler (sample_env [(sidebarURL ''@foo'' ''bar'', ok_response latest_doc),
                                      (archiveURL ''@foo'' ''bar'' ''1.2.3'', ok_response ''tgz[]'')])
                empty_disk ''@foo'' ''bar'' ''/''))) (finalDir ''@foo'' ''bar'' ''1.2.3'') = None"
  by (simp add: handler_def findPackageInfo_def fetchPackage_def downloadPackage_def Let_def
        fs_defs effect_defs name_defs sample_defs)

text \<open>
  C6 (when the resolver fails). As stated the claim fails: a document that decodes and has
  no \<open>latest\<close> tag yields success with the empty version. What holds:
  \<open>findPackageInfo\<close> returns an error when the request cannot be built and when the
  transport fails; for a response with status 200 it returns an error when reading the
  body fails or \<open>json.Unmarshal\<close> rejects it, and otherwise the decoded
  \<open>dist-tags.latest\<close>, whatever it is.
\<close>

theorem findPackageInfo_results:
  "(new_request_error E (sidebarURL scope name) = Some m \<longrightarrow>
      findPackageInfo E w scope name = (Inl (EnvError m), w))
   \<and> (new_request_error E (sidebarURL scope name) = None
        \<and> http_get E w (sidebarURL scope name) = Inl m \<longrightarrow>
      fst (findPackageInfo E w scope name) = Inl (EnvError m))
   \<and> (new_request_error E (sidebarURL scope name) = None
        \<and> http_get E w (sidebarURL scope name) = Inr res \<and> StatusCode res = 200 \<longrightarrow>
      fst (findPackageInfo E w scope name) =
        (case read_fails_at res of
           Some k \<Rightarrow> Inl (EnvError ''unexpected EOF'')
         | None \<Rightarrow>
             (case json_unmarshal E (Body res) of
                Inl m' \<Rightarrow> Inl (EnvError m')
              | Inr pkgInfo \<Rightarrow> Inr (Latest (DistTags pkgInfo)))))"
  by (auto simp: findPackageInfo_def sidebarURL_def http_Get_def split: option.splits sum.splits)

theorem findPackageInfo_results_witness:
  "findPackageInfo ((sample_env [])\<lparr>new_request_error := (\<lambda>url. Some ''invalid URL escape'')\<rparr>)
       empty_disk ''@foo'' ''%zz'' = (Inl (EnvError ''invalid URL escape''), empty_disk)
   \<and> fst (findPackageInfo (sample_env []) empty_disk ''@foo'' ''bar'')
        = Inl (EnvError ''connection refused'')
   \<and> fst (findPackageInfo (sample_env [(sidebarURL ''@foo'' ''bar'', ok_response latest_doc)])
             empty_disk ''@foo'' ''bar'') = Inr ''1.2.3''
   \<and> fst (findPackageInfo (sample_env [(sidebarURL ''@foo'' ''bar'', ok_response ''<html>'')])
             empty_disk ''@foo'' ''bar'') = Inl (EnvError ''invalid character'')"
proof -
  let ?E1 = "(sample_env [])\<lparr>new_request_error := (\<lambda>url. Some ''invalid URL escape'')\<rparr>"
  let ?E3 = "sample_env [(sidebarURL ''@foo'' ''bar'', ok_response latest_doc)]"
  let ?E4 = "sample_env [(sidebarURL ''@foo'' ''bar'', ok_response ''<html>'')]"
  have a: "new_request_error ?E1 (sidebarURL ''@foo'' ''%zz'') = Some ''invalid URL escape''"
    by (simp add: sample_env_def)
  have b: "new_request_error (sample_env []) (sidebarURL ''@foo'' ''bar'') = None
           \<and> http_get (sample_env []) empty_disk (sidebarURL ''@foo'' ''bar'') = Inl ''connection refused''"
    by (simp add: sample_env_def upstream_def)
  have c: "new_request_error ?E3 (sidebarURL ''@foo'' ''bar'') = None
           \<and> http_get ?E3 empty_disk (sidebarURL ''@foo'' ''bar'')
               = Inr (ok_response latest_doc)
           \<and> StatusCode (ok_response latest_doc) = 200"
    by (simp add: sample_env_def upstream_def ok_response_def)
  have d: "new_request_error ?E4 (sidebarURL ''@foo'' ''bar'') = None
           \<and> http_get ?E4 empty_disk (sidebarURL ''@foo'' ''bar'') = Inr (ok_response ''<html>'')
           \<and> StatusCode (ok_response ''<html>'') = 200"
    by (simp add: sample_env_def upstream_def ok_response_def)
  from findPackageInfo_results[of ?E1 "''@foo''" "''%zz''" "''invalid URL escape''" empty_disk] a
  have 1: "findPackageInfo ?E1 empty_disk ''@foo'' ''%zz'' = (Inl (EnvError ''invalid URL escape''), empty_disk)"
    by blast
  from findPackageInfo_results[of "sample_env []" "''@foo''" "''bar''" "''connection refused''" empty_disk] b
  have 2: "fst (findPackageInfo (sample_env []) empty_disk ''@foo'' ''bar'') = Inl (EnvError ''connection refused'')"
    by blast
  from findPackageInfo_results[of ?E3 "''@foo''" "''bar''" _ empty_disk
         "ok_response latest_doc"] c
  have 3: "fst (findPackageInfo ?E3 empty_disk ''@foo'' ''bar'') = Inr ''1.2.3''"
    by (simp add: ok_response_def sample_env_def sample_unmarshal_def latest_doc_def)
  from findPackageInfo_results[of ?E4 "''@foo''" "''bar''" _ empty_disk "ok_response ''<html>''"] d
  have 4: "fst (findPackageInfo ?E4 empty_disk ''@foo'' ''bar'') = Inl (EnvError ''invalid character'')"
    by (simp add: ok_response_def sample_env_def sample_unmarshal_def latest_doc_def)
  from 1 2 3 4 show ?thesis by blast
qed

theorem findPackageInfo_empty_version_counterexample:
  "fst (findPackageInfo (sample_env [(sidebarURL ''@foo'' ''bar'', ok_response ''{}'')])
          empty_disk ''@foo'' ''bar'') = Inr ''''"
  by (simp add: findPackageInfo_def Let_def effect_defs name_defs sample_defs)

text \<open>
  C7 (what a failed download leaves behind). As stated the claim fails: nothing in
  \<open>downloadPackage\<close> removes the file it created. What holds: a call that fails at the
  GET (transport error or a status other than 200) or at \<open>os.Create\<close> leaves the file
  system as it was; a call that fails while copying the body leaves the file at the
  destination, holding the bytes copied so far.
\<close>

theorem downloadPackage_failure_leaves:
  assumes "downloadPackage E w URL fileName = (Some err, w')"
  shows "(trace w' = trace w @ [EvGet URL] \<and> fs w' = fs w)
       \<or> (trace w' = trace w @ [EvGet URL, EvCreate fileName] \<and> fs w' = fs w)
       \<or> (trace w' = trace w @ [EvGet URL, EvCreate fileName, EvCopy fileName]
            \<and> (\<exists>r k. http_get E w URL = Inr r
                  \<and> lookup (fs w') fileName = Some (File (take k (Body r)))))"
proof (cases "http_get E w URL")
  case (Inl m)
  with assms show ?thesis
    by (auto simp: downloadPackage_def http_Get_def log_event_def)
next
  case (Inr r)
  show ?thesis
  proof (cases "StatusCode r = 200")
    case False
    with assms Inr show ?thesis
      by (auto simp: downloadPackage_def http_Get_def log_event_def)
  next
    case True
    let ?w1 = "log_event (EvGet URL) w"
    obtain r2 w2 where c: "os_Create E ?w1 fileName = (r2, w2)"
      by (cases "os_Create E ?w1 fileName")
    show ?thesis
    proof (cases r2)
      case (Some e)
      with assms Inr True c have "w' = w2"
        by (simp add: downloadPackage_def http_Get_def)
      with os_Create_Some[of E ?w1 fileName e w2] c Some show ?thesis
        by (simp add: log_event_def)
    next
      case None
      with assms Inr True c obtain e where cp: "io_Copy E w2 fileName r = (Some e, w')"
        by (auto simp: downloadPackage_def http_Get_def split: prod.splits option.splits)
      from os_Create_None[of E ?w1 fileName w2] c None
      have w2: "trace w2 = trace w @ [EvGet URL, EvCreate fileName]"
        "fs w2 = (fileName, File []) # fs w"
        by (simp_all add: log_event_def)
      from io_Copy_Some[OF cp] w2
      have "trace w' = trace w @ [EvGet URL, EvCreate fileName, EvCopy fileName]"
        and "lookup (fs w') fileName = Some (File (take 0 (Body r)))
             \<or> (\<exists>k. lookup (fs w') fileName = Some (File (take k (Body r))))"
        by (auto simp: lookup_def)
      with Inr show ?thesis by blast
    qed
  qed
qed

theorem downloadPackage_failure_leaves_witness:
  "downloadPackage
      (sample_env [(archiveURL ''@foo'' ''bar'' ''1.2.3'',
                    (ok_response ''tgz[package/index.js]'')\<lparr>read_fails_at := Some 3\<rparr>)])
      staging_disk (archiveURL ''@foo'' ''bar'' ''1.2.3'') (archiveFile ''@foo'' ''bar'' ''1.2.3'')
     = (Some (EnvError ''unexpected EOF''),
        \<lparr>fs = (''packages/@foo/bar/1.2.3.tgz'', File ''tgz'')
                # (''packages/@foo/bar/1.2.3.tgz'', File []) # fs staging_disk,
         trace = [EvGet ''http://localhost:4873/@foo/bar/-/@foo/bar-1.2.3.tgz'',
                  EvCreate ''packages/@foo/bar/1.2.3.tgz'', EvCopy ''packages/@foo/bar/1.2.3.tgz'']\<rparr>)
   \<and> (\<exists>k. lookup ((''packages/@foo/bar/1.2.3.tgz'', File ''tgz'')
                # (''packages/@foo/bar/1.2.3.tgz'', File []) # fs staging_disk)
               ''packages/@foo/bar/1.2.3.tgz''
              = Some (File (take k ''tgz[package/index.js]'')))"
proof -
  let ?E = "sample_env [(archiveURL ''@foo'' ''bar'' ''1.2.3'',
                    (ok_response ''tgz[package/index.js]'')\<lparr>read_fails_at := Some 3\<rparr>)]"
  let ?w = "\<lparr>fs = (''packages/@foo/bar/1.2.3.tgz'', File ''tgz'')
                # (''packages/@foo/bar/1.2.3.tgz'', File []) # fs staging_disk,
         trace = [EvGet ''http://localhost:4873/@foo/bar/-/@foo/bar-1.2.3.tgz'',
                  EvCreate ''packages/@foo/bar/1.2.3.tgz'', EvCopy ''packages/@foo/bar/1.2.3.tgz'']\<rparr>"
  have h: "downloadPackage ?E staging_disk (archiveURL ''@foo'' ''bar'' ''1.2.3'')
             (archiveFile ''@foo'' ''bar'' ''1.2.3'') = (Some (EnvError ''unexpected EOF''), ?w)"
    by (simp add: downloadPackage_def fs_defs effect_defs name_defs sample_defs)
  have g: "http_get ?E staging_disk (archiveURL ''@foo'' ''bar'' ''1.2.3'')
             = Inr ((ok_response ''tgz[package/index.js]'')\<lparr>read_fails_at := Some 3\<rparr>)"
    by (simp add: sample_env_def upstream_def)
  from downloadPackage_failure_leaves[OF h] h g show ?thesis
    by (auto simp: staging_disk_def archiveFile_def ok_response_def)
qed

theorem downloadPackage_partial_file_counterexample:
  "fst (downloadPackage
      (sample_env [(archiveURL ''@foo'' ''bar'' ''1.2.3'',
                    (ok_response ''tgz[package/index.js]'')\<lparr>read_fails_at := Some 3\<rparr>)])
      staging_disk (archiveURL ''@foo'' ''bar'' ''1.2.3'') (archiveFile ''@foo'' ''bar'' ''1.2.3''))
     = Some (EnvError ''unexpected EOF'')
   \<and> lookup (fs staging_disk) (archiveFile ''@foo'' ''bar'' ''1.2.3'') = None
   \<and> lookup (fs (snd (downloadPackage
      (sample_env [(archiveURL ''@foo'' ''bar'' ''1.2.3'',
                    (ok_response ''tgz[package/index.js]'')\<lparr>read_fails_at := Some 3\<rparr>)])
      staging_disk (archiveURL ''@foo'' ''bar'' ''1.2.3'') (archiveFile ''@foo'' ''bar'' ''1.2.3''))))
        (archiveFile ''@foo'' ''bar'' ''1.2.3'') = Some (File ''tgz'')"
  by (simp add: downloadPackage_def fs_defs effect_defs name_defs sample_defs)



text \<open>
  C9 (validation of the identifier). As stated the claim fails: the source validates
  nothing. What holds: whatever \<open>scope\<close>, \<open>name\<close> and \<open>version\<close> are, the first call
  the handler makes into the environment is built from them as received: for a version
  of fewer than two bytes the GET of the metadata URL (or, when that request cannot be
  built, the \<open>Stat\<close> of the final directory for the empty version), otherwise the
  \<open>Stat\<close> of the final directory.
\<close>

theorem handler_uses_components_as_received:
  "prefix (trace w @ [if length version0 < 2
                       then (if new_request_error E (sidebarURL scope name) = None
                             then EvGet (sidebarURL scope name)
                             else EvStat (finalDir scope name ''''))
                       else EvStat (finalDir scope name version0)])
          (trace (world_of (handler E w scope name version0)))"
proof -
  obtain version w1 where r:
    "(if length version0 < 2
      then (case findPackageInfo E w scope name of
              (Inl err, w') \<Rightarrow> ('''', w')
            | (Inr v, w') \<Rightarrow> (v, w'))
      else (version0, w)) = (version, w1)"
    by fastforce
  let ?first = "trace w1 @ [EvStat (finalDir scope name version)]"
  have f: "prefix ?first (trace (world_of (handler E w scope name version0)))"
    using fetchPackage_first_event[of w1 "scope @ ''/'' @ name" version E]
      handler_extends_fetchPackage[OF r]
    by (simp add: finalDir_def)
  show ?thesis
  proof (cases "length version0 < 2")
    case False
    with r f show ?thesis by simp
  next
    case True
    show ?thesis
    proof (cases "new_request_error E (sidebarURL scope name)")
      case (Some m)
      with True r have "version = '''' \<and> w1 = w"
        by (auto simp: findPackageInfo_def sidebarURL_def)
      with True Some f show ?thesis by simp
    next
      case None
      with True r have "trace w1 = trace w @ [EvGet (sidebarURL scope name)]"
        by (auto simp: findPackageInfo_def sidebarURL_def http_Get_def log_event_def Let_def
                 split: sum.splits option.splits)
      with f have "prefix (trace w @ [EvGet (sidebarURL scope name)])
                     (trace (world_of (handler E w scope name version0)))"
        by (auto simp: prefix_def)
      with True None show ?thesis by simp
    qed
  qed
qed

theorem handler_traversal_counterexample:
  "trace (world_of (handler (sample_env []) empty_disk ''..'' ''..'' ''/''))
     = [EvGet ''http://localhost:4873/-/verdaccio/data/sidebar/../..'',
        EvStat ''packages/../..@'',
        EvMkdirAll ''packages/../..'',
        EvGet ''http://localhost:4873/../../-/../..-.tgz'']"
  by (simp add: handler_def findPackageInfo_def fetchPackage_def downloadPackage_def Let_def
        fs_defs effect_defs name_defs sample_defs)

text \<open>
  C10 (a status other than 200 creates nothing). When the GET succeeds at the transport
  level and the status code is not 200, \<open>downloadPackage\<close> returns the error
  \<open>received a non 200 response code\<close>; its only call into the environment was the GET,
  so no file was created and the file system is as it was.
\<close>

theorem downloadPackage_non200_creates_nothing:
  assumes "http_get E w URL = Inr r" and "StatusCode r \<noteq> 200"
  shows "downloadPackage E w URL fileName =
           (Some (ErrorString ''received a non 200 response code''),
            w\<lparr>trace := trace w @ [EvGet URL]\<rparr>)"
  using assms by (simp add: downloadPackage_def http_Get_def log_event_def)

theorem downloadPackage_non200_creates_nothing_witness:
  "http_get (sample_env [(archiveURL ''@foo'' ''bar'' ''9.9.9'', (ok_response ''not found'')\<lparr>StatusCode := 404\<rparr>)])
      staging_disk (archiveURL ''@foo'' ''bar'' ''9.9.9'')
     = Inr ((ok_response ''not found'')\<lparr>StatusCode := 404\<rparr>)
   \<and> StatusCode ((ok_response ''not found'')\<lparr>StatusCode := 404\<rparr>) \<noteq> 200
   \<and> downloadPackage (sample_env [(archiveURL ''@foo'' ''bar'' ''9.9.9'', (ok_response ''not found'')\<lparr>StatusCode := 404\<rparr>)])
        staging_disk (archiveURL ''@foo'' ''bar'' ''9.9.9'') (archiveFile ''@foo'' ''bar'' ''9.9.9'')
     = (Some (ErrorString ''received a non 200 response code''),
        staging_disk\<lparr>trace := [EvGet ''http://localhost:4873/@foo/bar/-/@foo/bar-9.9.9.tgz'']\<rparr>)"
proof -
  let ?r = "(ok_response ''not found'')\<lparr>StatusCode := 404\<rparr>"
  let ?E = "sample_env [(archiveURL ''@foo'' ''bar'' ''9.9.9'', ?r)]"
  have h1: "http_get ?E staging_disk (archiveURL ''@foo'' ''bar'' ''9.9.9'') = Inr ?r"
    by (simp add: sample_env_def upstream_def)
  have h2: "StatusCode ?r \<noteq> 200"
    by (simp add: ok_response_def)
  from downloadPackage_non200_creates_nothing[OF h1 h2, of "archiveFile ''@foo'' ''bar'' ''9.9.9''"] h1 h2
  show ?thesis by (simp add: staging_disk_def archiveURL_def)
qed

end
